theory Spec2Isabelle
  imports
    Main
    "HOL-Library.Word"
    "HOL-Library.List_Lexorder"
    "HOL-Library.Multiset"
    "HOL-Library.Sublist"
begin

section \<open>The logical replication writer processor\<close>

text \<open>
  A shallow embedding of
  \<^verbatim>\<open>pkg/ccl/crosscluster/logical/logical_replication_writer_processor.go\<close>:
  the dispatcher (\<^verbatim>\<open>handleEvent\<close>), the frontier gate (\<^verbatim>\<open>maybeCheckpoint\<close>,
  \<^verbatim>\<open>checkpoint\<close>) and the parallel applier (\<^verbatim>\<open>flushBuffer\<close>, \<^verbatim>\<open>flushChunk\<close>,
  \<^verbatim>\<open>filterRemaining\<close>).

  Collaborators that live in other packages (the batch handler behind the
  \<^verbatim>\<open>BatchHandler\<close> interface, the dead-letter queue client, the span frontier, the
  purgatory, the wall clock and the testing knobs) are parameters, collected in the
  record \<open>env\<close>; each of them is a state transformer on its own piece of state.
  Logging and tracing spans are not modelled.
\<close>

subsection \<open>Data model\<close>

type_synonym byte = "8 word"

text \<open>\<^verbatim>\<open>roachpb.Key\<close> is a byte string. \<^verbatim>\<open>Key.Compare\<close> is \<^verbatim>\<open>bytes.Compare\<close>: the
  lexicographic order on unsigned bytes, a proper prefix being smaller; this is the order
  of \<^verbatim>\<open>HOL-Library.List_Lexorder\<close> on \<open>byte list\<close>.\<close>

type_synonym Key = "byte list"

text \<open>\<^verbatim>\<open>hlc.Timestamp\<close>: wall time in nanoseconds (\<^verbatim>\<open>int64\<close>) and a logical counter
  (\<^verbatim>\<open>int32\<close>). The code only compares timestamps and subtracts a wall time from a clock
  reading, so the fields are integers.\<close>

record Timestamp =
  WallTime :: int
  Logical :: int

record Value =
  RawBytes :: "byte list"
  Timestamp :: Timestamp

record KeyValue =
  Key :: Key
  Value :: Value

record StreamEvent_KV =
  KeyValue :: KeyValue
  PrevValue :: Value

text \<open>The zero value \<^verbatim>\<open>streampb.StreamEvent_KV{}\<close>.\<close>

definition zeroTimestamp :: Timestamp where
  "zeroTimestamp = \<lparr>WallTime = 0, Logical = 0\<rparr>"

definition zeroValue :: Value where
  "zeroValue = \<lparr>RawBytes = [], Timestamp = zeroTimestamp\<rparr>"

definition zeroKV :: StreamEvent_KV where
  "zeroKV = \<lparr>KeyValue = \<lparr>Key = [], Value = zeroValue\<rparr>, PrevValue = zeroValue\<rparr>"

record batchStats =
  notProcessed :: int
  byteSize :: int
  optimisticInsertConflicts :: int

definition zeroStats :: batchStats where
  "zeroStats = \<lparr>notProcessed = 0, byteSize = 0, optimisticInsertConflicts = 0\<rparr>"

text \<open>\<^verbatim>\<open>batchStats.Add\<close> adds the byte size and the conflict count; it leaves
  \<^verbatim>\<open>notProcessed\<close> alone.\<close>

definition Add :: "batchStats \<Rightarrow> batchStats \<Rightarrow> batchStats" where
  "Add b o' = b\<lparr>byteSize := byteSize b + byteSize o',
      optimisticInsertConflicts := optimisticInsertConflicts b + optimisticInsertConflicts o'\<rparr>"

record Span =
  SpanKey :: Key
  EndKey :: Key

record ResolvedSpan =
  ResolvedSpan_Span :: Span
  ResolvedSpan_Timestamp :: Timestamp

text \<open>\<^verbatim>\<open>crosscluster.EventType\<close> is an integer enumeration declared outside this file;
  \<open>OtherEvent\<close> stands for every value that is none of the five the dispatcher names.\<close>

datatype EventType =
  KVEvent | SSTableEvent | DeleteRangeEvent | CheckpointEvent | SplitEvent | OtherEvent int

text \<open>A Go slice that may be \<^verbatim>\<open>nil\<close>: \<open>None\<close> is \<^verbatim>\<open>nil\<close>, \<open>Some xs\<close> a non-nil slice
  with contents \<open>xs\<close> (possibly of length 0).\<close>

type_synonym 'a goslice = "'a list option"

record Event =
  Type :: EventType
  GetKVs :: "StreamEvent_KV list"
  GetResolvedSpans :: "ResolvedSpan goslice"

text \<open>Errors. \<open>ExtError\<close> is an error produced by a collaborator; \<open>Wrap\<close> is
  \<^verbatim>\<open>errors.Wrap(err, msg)\<close>; the others are the errors this file creates:
  \<^verbatim>\<open>"unexpected event for online stream: %v"\<close>, \<^verbatim>\<open>"unknown streaming event type %v"\<close>
  and \<^verbatim>\<open>"checkpoint event expected to have resolved spans"\<close>. \<open>Panic\<close> is a Go run-time
  panic (the integer division by an empty handler pool).\<close>

datatype error =
    ExtError string
  | Wrap error string
  | UnexpectedEvent Event
  | UnknownEventType EventType
  | ExpectedResolvedSpans
  | Panic string

text \<open>A window \<^verbatim>\<open>a[off : off+len]\<close> onto the array that backs the buffer. Slices of one
  buffer alias each other: a write through one is seen through every other that covers
  the slot.\<close>

record slice =
  off :: nat
  len :: nat

definition contents :: "'a list \<Rightarrow> slice \<Rightarrow> 'a list" where
  "contents arr s = take (len s) (drop (off s) arr)"

subsection \<open>Ordering and chunking\<close>

text \<open>The closure \<^verbatim>\<open>k\<close> of \<^verbatim>\<open>flushBuffer\<close>: the row key of a KV, truncated to the row
  prefix when \<^verbatim>\<open>keys.EnsureSafeSplitKey\<close> succeeds. \<^verbatim>\<open>EnsureSafeSplitKey\<close> is a
  parameter.\<close>

definition k :: "(Key \<Rightarrow> error + Key) \<Rightarrow> StreamEvent_KV \<Rightarrow> Key" where
  "k EnsureSafeSplitKey kv =
     (case EnsureSafeSplitKey (Key (KeyValue kv)) of
        Inr p \<Rightarrow> p
      | Inl err \<Rightarrow> Key (KeyValue kv))"

definition Key_Compare :: "Key \<Rightarrow> Key \<Rightarrow> int" where
  "Key_Compare a b = (if a < b then - 1 else if a = b then 0 else 1)"

text \<open>Modelled from the spec: \<^verbatim>\<open>hlc.Timestamp.Compare\<close> is not in this file. The spec
  orders the revisions of a row "by commit time"; a commit timestamp is compared by wall
  time, then by logical counter.\<close>

definition Timestamp_Compare :: "Timestamp \<Rightarrow> Timestamp \<Rightarrow> int" where
  "Timestamp_Compare t s =
     (if WallTime t > WallTime s then 1
      else if WallTime t < WallTime s then - 1
      else if Logical t > Logical s then 1
      else if Logical t < Logical s then - 1
      else 0)"

text \<open>The comparison function handed to \<^verbatim>\<open>slices.SortFunc\<close>.\<close>

definition sortCmp ::
  "(Key \<Rightarrow> error + Key) \<Rightarrow> StreamEvent_KV \<Rightarrow> StreamEvent_KV \<Rightarrow> int" where
  "sortCmp esk a b =
     (let c = Key_Compare (k esk a) (k esk b)
      in if c \<noteq> 0 then c
         else Timestamp_Compare (Timestamp (Value (KeyValue a))) (Timestamp (Value (KeyValue b))))"

text \<open>\<^verbatim>\<open>slices.SortFunc\<close> belongs to Go's standard library: it sorts in place with respect
  to the comparison function and is not stable. It is modelled by an insertion sort; the
  statements below use no more of it than that the result is a permutation of the input
  in which no element compares greater than a later one.\<close>

fun insertFunc :: "('a \<Rightarrow> 'a \<Rightarrow> int) \<Rightarrow> 'a \<Rightarrow> 'a list \<Rightarrow> 'a list" where
  "insertFunc cmp x [] = [x]"
| "insertFunc cmp x (y # ys) =
     (if cmp x y \<le> 0 then x # y # ys else y # insertFunc cmp x ys)"

fun SortFunc :: "('a \<Rightarrow> 'a \<Rightarrow> int) \<Rightarrow> 'a list \<Rightarrow> 'a list" where
  "SortFunc cmp [] = []"
| "SortFunc cmp (x # xs) = insertFunc cmp x (SortFunc cmp xs)"

definition maxWriterWorkers :: nat where
  "maxWriterWorkers = 32"

definition minChunkSize :: nat where
  "minChunkSize = 64"

text \<open>\<^verbatim>\<open>chunkSize := max((len(kvs)/len(lrw.bh))+1, minChunkSize)\<close>, for a non-empty handler
  pool (Go's integer division truncates).\<close>

definition chunkSize :: "nat \<Rightarrow> nat \<Rightarrow> nat" where
  "chunkSize n w = max (n div w + 1) minChunkSize"

text \<open>The inner loop
  \<^verbatim>\<open>for chunkEnd < len(kvs) && k(kvs[chunkEnd-1]).Equal(k(kvs[chunkEnd])) { chunkEnd++ }\<close>
  on the slice \<open>kvs\<close> of the array \<open>arr\<close>. It is entered with \<open>chunkEnd \<ge> 1\<close>.\<close>

function extendChunk ::
  "(StreamEvent_KV \<Rightarrow> Key) \<Rightarrow> StreamEvent_KV list \<Rightarrow> slice \<Rightarrow> nat \<Rightarrow> nat" where
  "extendChunk kf arr kvs chunkEnd =
     (if chunkEnd < len kvs \<and>
         kf (arr ! (off kvs + chunkEnd - 1)) = kf (arr ! (off kvs + chunkEnd))
      then extendChunk kf arr kvs (chunkEnd + 1)
      else chunkEnd)"
  by pat_completeness auto
termination
  by (relation "measure (\<lambda>(kf, arr, kvs, chunkEnd). len kvs - chunkEnd)") auto

declare extendChunk.simps [simp del]

text \<open>The body of \<^verbatim>\<open>for worker := range lrw.bh\<close> up to the start of the goroutine: the
  first argument counts the handlers not yet visited; the result is the list of chunks,
  the i-th for worker i, and what is left of \<open>kvs\<close> when the loop ends. The chunks are cut
  from the part of the buffer that no worker has been given yet, so the goroutines
  already running do not influence where the later chunks end.\<close>

fun chunkLoop ::
  "(StreamEvent_KV \<Rightarrow> Key) \<Rightarrow> nat \<Rightarrow> nat \<Rightarrow> StreamEvent_KV list \<Rightarrow> slice
     \<Rightarrow> slice list \<times> slice" where
  "chunkLoop kf cs 0 arr kvs = ([], kvs)"
| "chunkLoop kf cs (Suc n) arr kvs =
     (if len kvs = 0 then ([], kvs)
      else
        let chunkEnd = extendChunk kf arr kvs (min cs (len kvs));
            chunk = \<lparr>off = off kvs, len = chunkEnd\<rparr>;
            kvs' = \<lparr>off = off kvs + len chunk, len = len kvs - len chunk\<rparr>;
            (chunks, rest) = chunkLoop kf cs n arr kvs'
        in (chunk # chunks, rest))"

declare chunkLoop.simps [simp del]

subsection \<open>Processor state and collaborators\<close>

text \<open>Metrics and the debug status record are write-only from this file's point of view.
  They are modelled by the sequence of calls made on them, each with its arguments.\<close>

datatype obs_event =
    RecordFlushStart int nat
  | RecordBatchApplied int nat
  | RecordFlushComplete int nat int
  | OptimisticInsertConflictCount_Inc int
  | AppliedRowUpdates_Inc nat
  | AppliedLogicalBytes_Inc int
  | CommitToCommitLatency_RecordValue int
  | StreamBatchNanosHist_RecordValue int
  | StreamBatchRowsHist_RecordValue nat
  | StreamBatchBytesHist_RecordValue int
  | ApplyBatchNanosHist_RecordValue int
  | CheckpointEvents_Inc int

text \<open>The state of the processor: the handler pool \<^verbatim>\<open>lrw.bh\<close> (one handler state per
  worker), the dead-letter queue client, the frontier, the purgatory, the values
  delivered on \<^verbatim>\<open>checkpointCh\<close>, the calls made on metrics and debug status, the number
  of wall-clock readings taken so far, and \<open>heap\<close>, the array that backs the buffer being
  flushed.\<close>

record ('h, 'd, 'f, 'p) lrw =
  bh :: "'h list"
  dlqClient :: 'd
  frontier :: 'f
  purgatory :: 'p
  checkpointCh :: "ResolvedSpan list list"
  observed :: "obs_event list"
  clock :: nat
  heap :: "StreamEvent_KV list"

type_synonym ('h, 'd, 'f, 'p) flushFn =
  "StreamEvent_KV list \<Rightarrow> bool \<Rightarrow> ('h, 'd, 'f, 'p) lrw
     \<Rightarrow> ((error + StreamEvent_KV goslice) \<times> ('h, 'd, 'f, 'p) lrw) option"

type_synonym ('h, 'd, 'f, 'p) checkpointFn =
  "ResolvedSpan goslice \<Rightarrow> ('h, 'd, 'f, 'p) lrw \<Rightarrow> error option \<times> ('h, 'd, 'f, 'p) lrw"

text \<open>The collaborators and settings.
  \<^item> \<open>HandleBatch\<close>, \<open>GetLastRow\<close>: the \<^verbatim>\<open>BatchHandler\<close> interface, on a handler state.
  \<^item> \<open>dlqLog\<close>: \<^verbatim>\<open>lrw.dlqClient.Log\<close> for this job; \<open>Some e\<close> is a failed write.
  \<^item> \<open>Forward\<close>, \<open>FrontierOf\<close>: \<^verbatim>\<open>frontier.Forward\<close> and \<^verbatim>\<open>frontier.Frontier\<close>.
  \<^item> \<open>Now\<close>: the n-th reading of the wall clock, in nanoseconds.
  \<^item> \<open>flushBatchSize\<close>, \<open>useImplicitTxns\<close>: the two cluster settings; the batch size is
    registered as a non-negative integer.
  \<^item> \<open>RunAfterReceivingEvent\<close>, \<open>ElideCheckpointEvent\<close>: the testing knobs, \<open>None\<close> when
    not installed. The elision predicate is applied to the frontier timestamp (the
    instance id is fixed for a processor).
  \<^item> \<open>ctxErr\<close>: \<open>Some e\<close> when the \<^verbatim>\<open>select\<close> in \<^verbatim>\<open>checkpoint\<close> takes the
    \<^verbatim>\<open>ctx.Done()\<close> branch, \<open>e\<close> being \<^verbatim>\<open>ctx.Err()\<close>; \<open>None\<close> when the send goes through.
  \<^item> \<open>purgEmpty\<close>, \<open>purgCheckpoint\<close>, \<open>purgDrain\<close>, \<open>purgStore\<close>: the methods of
    \<^verbatim>\<open>lrw.purgatory\<close>; \<open>Drain\<close> and \<open>Store\<close> receive the flush and checkpoint functions.\<close>

record ('h, 'd, 'f, 'p, 'row) env =
  HandleBatch :: "'h \<Rightarrow> StreamEvent_KV list \<Rightarrow> (error + batchStats) \<times> 'h"
  GetLastRow :: "'h \<Rightarrow> 'row"
  dlqLog :: "'d \<Rightarrow> StreamEvent_KV \<Rightarrow> 'row \<Rightarrow> error \<Rightarrow> error option \<times> 'd"
  EnsureSafeSplitKey :: "Key \<Rightarrow> error + Key"
  Forward :: "'f \<Rightarrow> Span \<Rightarrow> Timestamp \<Rightarrow> (error + bool) \<times> 'f"
  FrontierOf :: "'f \<Rightarrow> Timestamp"
  Now :: "nat \<Rightarrow> int"
  flushBatchSize :: nat
  useImplicitTxns :: bool
  RunAfterReceivingEvent :: "(unit \<Rightarrow> error option) option"
  ElideCheckpointEvent :: "(Timestamp \<Rightarrow> bool) option"
  ctxErr :: "error option"
  purgEmpty :: "'p \<Rightarrow> bool"
  purgCheckpoint :: "'p \<Rightarrow> ResolvedSpan goslice \<Rightarrow> 'p"
  purgDrain :: "('h, 'd, 'f, 'p) flushFn \<Rightarrow> ('h, 'd, 'f, 'p) checkpointFn
     \<Rightarrow> ('h, 'd, 'f, 'p) lrw \<Rightarrow> (error option \<times> ('h, 'd, 'f, 'p) lrw) option"
  purgStore :: "('h, 'd, 'f, 'p) flushFn \<Rightarrow> ('h, 'd, 'f, 'p) checkpointFn
     \<Rightarrow> StreamEvent_KV goslice \<Rightarrow> ('h, 'd, 'f, 'p) lrw
     \<Rightarrow> (error option \<times> ('h, 'd, 'f, 'p) lrw) option"

text \<open>\<^verbatim>\<open>timeutil.Now()\<close>; \<^verbatim>\<open>timeutil.Since(t)\<close> is a reading minus \<open>t\<close>.\<close>

definition now ::
  "('h, 'd, 'f, 'p, 'row) env \<Rightarrow> ('h, 'd, 'f, 'p) lrw \<Rightarrow> int \<times> ('h, 'd, 'f, 'p) lrw" where
  "now env st = (Now env (clock st), st\<lparr>clock := Suc (clock st)\<rparr>)"

subsection \<open>The per-chunk body: \<^verbatim>\<open>flushChunk\<close>\<close>

definition shouldRetryLater :: "error \<Rightarrow> bool" where
  "shouldRetryLater err = True"

text \<open>\<^verbatim>\<open>lrw.dlq\<close>: after logging, \<^verbatim>\<open>lrw.dlqClient.Log(ctx, jobID, event, row, applyErr)\<close>.\<close>

definition dlq ::
  "('h, 'd, 'f, 'p, 'row) env \<Rightarrow> StreamEvent_KV \<Rightarrow> 'row \<Rightarrow> error \<Rightarrow> ('h, 'd, 'f, 'p) lrw
     \<Rightarrow> error option \<times> ('h, 'd, 'f, 'p) lrw" where
  "dlq env event row applyErr st =
     (let (r, d) = dlqLog env (dlqClient st) event row applyErr
      in (r, st\<lparr>dlqClient := d\<rparr>))"

text \<open>\<^verbatim>\<open>bh.HandleBatch(ctx, batch)\<close> for the handler of worker \<open>w\<close>: the handler sees the
  current contents of the slots of \<open>batch\<close>.\<close>

definition callHandleBatch ::
  "('h, 'd, 'f, 'p, 'row) env \<Rightarrow> nat \<Rightarrow> slice \<Rightarrow> ('h, 'd, 'f, 'p) lrw
     \<Rightarrow> (error + batchStats) \<times> ('h, 'd, 'f, 'p) lrw" where
  "callHandleBatch env w batch st =
     (let (r, h) = HandleBatch env (bh st ! w) (contents (heap st) batch)
      in (r, st\<lparr>bh := (bh st)[w := h]\<rparr>))"

text \<open>\<^verbatim>\<open>batch[i] = streampb.StreamEvent_KV{}\<close>, a write into the backing array.\<close>

definition zeroSlot :: "slice \<Rightarrow> nat \<Rightarrow> ('h, 'd, 'f, 'p) lrw \<Rightarrow> ('h, 'd, 'f, 'p) lrw" where
  "zeroSlot batch i st = st\<lparr>heap := (heap st)[off batch + i := zeroKV]\<rparr>"

text \<open>\<^verbatim>\<open>for i := range batch { batch[i] = streampb.StreamEvent_KV{} }\<close>\<close>

definition zeroSlots :: "slice \<Rightarrow> ('h, 'd, 'f, 'p) lrw \<Rightarrow> ('h, 'd, 'f, 'p) lrw" where
  "zeroSlots batch st = fold (zeroSlot batch) [0..<len batch] st"

text \<open>The loop \<^verbatim>\<open>for i := range batch\<close> of the branch for a failed batch of several
  events: each event gets its own \<^verbatim>\<open>HandleBatch\<close> call on \<^verbatim>\<open>batch[i:i+1]\<close>. The fourth
  argument lists the indices still to visit. A failed dead-letter write ends
  \<^verbatim>\<open>flushChunk\<close> with that error.\<close>

fun retryRows ::
  "('h, 'd, 'f, 'p, 'row) env \<Rightarrow> bool \<Rightarrow> nat \<Rightarrow> slice \<Rightarrow> nat list \<Rightarrow> batchStats
     \<Rightarrow> ('h, 'd, 'f, 'p) lrw \<Rightarrow> (error + batchStats) \<times> ('h, 'd, 'f, 'p) lrw" where
  "retryRows env mustProcess w batch [] stats st = (Inr stats, st)"
| "retryRows env mustProcess w batch (i # is) stats st =
     (case callHandleBatch env w \<lparr>off = off batch + i, len = 1\<rparr> st of
        (Inl err, st1) \<Rightarrow>
          if mustProcess \<or> \<not> shouldRetryLater err then
            (case dlq env (heap st1 ! (off batch + i)) (GetLastRow env (bh st1 ! w)) err st1 of
               (Some e, st2) \<Rightarrow> (Inl e, st2)
             | (None, st2) \<Rightarrow> retryRows env mustProcess w batch is stats st2)
          else
            retryRows env mustProcess w batch is
              (stats\<lparr>notProcessed := notProcessed stats + 1\<rparr>) st1
      | (Inr singleStats, st1) \<Rightarrow>
          retryRows env mustProcess w batch is (Add stats singleStats) (zeroSlot batch i st1))"

text \<open>The end of one iteration of the batch loop: the batch time goes to the debug
  status and to the \<^verbatim>\<open>ApplyBatchNanosHist\<close> histogram.\<close>

definition batchDone ::
  "('h, 'd, 'f, 'p, 'row) env \<Rightarrow> int \<Rightarrow> slice \<Rightarrow> ('h, 'd, 'f, 'p) lrw \<Rightarrow> ('h, 'd, 'f, 'p) lrw" where
  "batchDone env preBatchTime batch st =
     (let (t, st') = now env st;
          batchTime = t - preBatchTime
      in st'\<lparr>observed := observed st' @
           [RecordBatchApplied batchTime (len batch), ApplyBatchNanosHist_RecordValue batchTime]\<rparr>)"

text \<open>One iteration of \<^verbatim>\<open>for len(chunk) > 0\<close>, for the batch already cut off the chunk.\<close>

definition flushBatch ::
  "('h, 'd, 'f, 'p, 'row) env \<Rightarrow> bool \<Rightarrow> nat \<Rightarrow> slice \<Rightarrow> batchStats \<Rightarrow> ('h, 'd, 'f, 'p) lrw
     \<Rightarrow> (error + batchStats) \<times> ('h, 'd, 'f, 'p) lrw" where
  "flushBatch env mustProcess w batch stats st =
     (let (preBatchTime, st0) = now env st
      in case callHandleBatch env w batch st0 of
           (Inl err, st1) \<Rightarrow>
             if len batch = 1 then
               (if mustProcess \<or> \<not> shouldRetryLater err then
                  (case dlq env (heap st1 ! off batch) (GetLastRow env (bh st1 ! w)) err st1 of
                     (Some e, st2) \<Rightarrow> (Inl e, st2)
                   | (None, st2) \<Rightarrow> (Inr stats, batchDone env preBatchTime batch st2))
                else
                  (Inr (stats\<lparr>notProcessed := notProcessed stats + 1\<rparr>),
                   batchDone env preBatchTime batch st1))
             else
               (case retryRows env mustProcess w batch [0..<len batch] stats st1 of
                  (Inl e, st2) \<Rightarrow> (Inl e, st2)
                | (Inr stats', st2) \<Rightarrow> (Inr stats', batchDone env preBatchTime batch st2))
         | (Inr s, st1) \<Rightarrow>
             (Inr (Add stats s), batchDone env preBatchTime batch (zeroSlots batch st1)))"

text \<open>The loop \<^verbatim>\<open>for len(chunk) > 0\<close>. With a batch size of 0 the batch is empty and the
  chunk never shrinks: the loop does not end, which is the value \<open>None\<close>.\<close>

partial_function (option) flushChunkLoop ::
  "('h, 'd, 'f, 'p, 'row) env \<Rightarrow> nat \<Rightarrow> bool \<Rightarrow> nat \<Rightarrow> slice \<Rightarrow> batchStats
     \<Rightarrow> ('h, 'd, 'f, 'p) lrw \<Rightarrow> ((error + batchStats) \<times> ('h, 'd, 'f, 'p) lrw) option" where
  "flushChunkLoop env batchSize mustProcess w chunk stats st =
     (if len chunk > 0 then
        (let batch = \<lparr>off = off chunk, len = min batchSize (len chunk)\<rparr>;
             chunk' = \<lparr>off = off chunk + len batch, len = len chunk - len batch\<rparr>
         in case flushBatch env mustProcess w batch stats st of
              (Inl e, st') \<Rightarrow> Some (Inl e, st')
            | (Inr stats', st') \<Rightarrow> flushChunkLoop env batchSize mustProcess w chunk' stats' st')
      else Some (Inr stats, st))"

declare flushChunkLoop.simps [code]

definition flushChunk ::
  "('h, 'd, 'f, 'p, 'row) env \<Rightarrow> nat \<Rightarrow> slice \<Rightarrow> bool \<Rightarrow> ('h, 'd, 'f, 'p) lrw
     \<Rightarrow> ((error + batchStats) \<times> ('h, 'd, 'f, 'p) lrw) option" where
  "flushChunk env w chunk mustProcess st =
     (let batchSize = (if useImplicitTxns env then 1 else flushBatchSize env)
      in flushChunkLoop env batchSize mustProcess w chunk zeroStats st)"

subsection \<open>Compaction: \<^verbatim>\<open>filterRemaining\<close>\<close>

text \<open>The loop \<^verbatim>\<open>for i := range kvs\<close>: \<^verbatim>\<open>remaining\<close> is the same slice as \<^verbatim>\<open>kvs\<close>, so
  \<^verbatim>\<open>remaining[j] = kvs[i]\<close> writes into the array the loop is reading.\<close>

function filterLoop ::
  "StreamEvent_KV list \<Rightarrow> slice \<Rightarrow> nat \<Rightarrow> nat \<Rightarrow> StreamEvent_KV list \<times> nat" where
  "filterLoop arr kvs i j =
     (if i < len kvs then
        (if length (Key (KeyValue (arr ! (off kvs + i)))) \<noteq> 0
         then filterLoop (arr[off kvs + j := arr ! (off kvs + i)]) kvs (i + 1) (j + 1)
         else filterLoop arr kvs (i + 1) j)
      else (arr, j))"
  by pat_completeness auto
termination
  by (relation "measure (\<lambda>(arr, kvs, i, j). len kvs - i)") auto

declare filterLoop.simps [simp del]

text \<open>\<^verbatim>\<open>filterRemaining\<close> returns \<^verbatim>\<open>remaining[:j]\<close>, or a fresh copy of it when it is shorter
  than half of \<^verbatim>\<open>kvs\<close>. The result here is the contents of the returned slice, together
  with the array as the loop left it; whether the returned slice still aliases the
  array is not recorded.\<close>

definition filterRemaining ::
  "StreamEvent_KV list \<Rightarrow> slice \<Rightarrow> StreamEvent_KV list \<times> StreamEvent_KV list" where
  "filterRemaining arr kvs =
     (let (arr', j) = filterLoop arr kvs 0 0
      in (contents arr' \<lparr>off = off kvs, len = j\<rparr>, arr'))"

subsection \<open>The parallel applier: \<^verbatim>\<open>flushBuffer\<close>\<close>

text \<open>The two atomic counters of \<^verbatim>\<open>flushBuffer\<close> and the error that \<^verbatim>\<open>g.Wait()\<close> will
  report.\<close>

record flushAcc =
  flushByteSize :: int
  notProcessedSum :: int
  waitErr :: "error option"

definition zeroAcc :: flushAcc where
  "zeroAcc = \<lparr>flushByteSize = 0, notProcessedSum = 0, waitErr = None\<rparr>"

text \<open>The goroutines started by \<^verbatim>\<open>g.GoCtx\<close>, up to \<^verbatim>\<open>g.Wait()\<close>. Worker \<open>w\<close> owns the
  handler \<open>bh ! w\<close> and the slots of its chunk, and no other worker touches either; the
  model therefore runs the workers one after the other, in worker order. \<^verbatim>\<open>g.Wait()\<close>
  returns only when every goroutine has returned, and reports the first error; in the
  model that is the error of the worker with the least index. A worker that does not
  return keeps \<^verbatim>\<open>g.Wait()\<close> from returning.\<close>

fun runWorkers ::
  "('h, 'd, 'f, 'p, 'row) env \<Rightarrow> bool \<Rightarrow> nat \<Rightarrow> slice list \<Rightarrow> flushAcc \<Rightarrow> ('h, 'd, 'f, 'p) lrw
     \<Rightarrow> (flushAcc \<times> ('h, 'd, 'f, 'p) lrw) option" where
  "runWorkers env mustProcess worker [] acc st = Some (acc, st)"
| "runWorkers env mustProcess worker (chunk # chunks) acc st =
     (case flushChunk env worker chunk mustProcess st of
        None \<Rightarrow> None
      | Some (Inl err, st') \<Rightarrow>
          runWorkers env mustProcess (Suc worker) chunks
            (acc\<lparr>waitErr := (case waitErr acc of None \<Rightarrow> Some err | Some e \<Rightarrow> Some e)\<rparr>) st'
      | Some (Inr s, st') \<Rightarrow>
          runWorkers env mustProcess (Suc worker) chunks
            (acc\<lparr>flushByteSize := flushByteSize acc + byteSize s,
                 notProcessedSum := notProcessedSum acc + notProcessed s\<rparr>)
            (st'\<lparr>observed := observed st' @
               [OptimisticInsertConflictCount_Inc (optimisticInsertConflicts s)]\<rparr>))"

text \<open>The chunks \<^verbatim>\<open>flushBuffer\<close> hands to its workers for the sorted array \<open>arr\<close> and a
  pool of \<open>nWorkers\<close> handlers, and what is left of \<^verbatim>\<open>kvs\<close> after the loop.\<close>

definition dispatchChunks ::
  "('h, 'd, 'f, 'p, 'row) env \<Rightarrow> nat \<Rightarrow> StreamEvent_KV list \<Rightarrow> slice list \<times> slice" where
  "dispatchChunks env nWorkers arr =
     chunkLoop (k (EnsureSafeSplitKey env)) (chunkSize (length arr) nWorkers) nWorkers arr
       \<lparr>off = 0, len = length arr\<rparr>"

text \<open>\<^verbatim>\<open>flushBuffer(ctx, kvs, mustProcess)\<close>. The argument \<open>kvs0\<close> is the contents of the
  buffer handed in; the sort is in place, so from then on \<open>heap\<close> holds the sorted array
  and the local variable \<^verbatim>\<open>kvs\<close> is a window onto it, as are the chunks. The result is
  \<^verbatim>\<open>(unapplied, err)\<close>: \<open>Inl err\<close> for \<^verbatim>\<open>(nil, err)\<close>, \<open>Inr unapplied\<close> for
  \<^verbatim>\<open>(unapplied, nil)\<close>, and \<open>None\<close> when the call does not return.\<close>

definition flushBuffer ::
  "('h, 'd, 'f, 'p, 'row) env \<Rightarrow> StreamEvent_KV list \<Rightarrow> bool \<Rightarrow> ('h, 'd, 'f, 'p) lrw
     \<Rightarrow> ((error + StreamEvent_KV goslice) \<times> ('h, 'd, 'f, 'p) lrw) option" where
  "flushBuffer env kvs0 mustProcess st =
     (if length kvs0 = 0 then Some (Inr None, st)
      else
        let (preFlushTime, st1) = now env st;
            st2 = st1\<lparr>observed := observed st1 @ [RecordFlushStart preFlushTime (length kvs0)]\<rparr>;
            firstKeyTS = WallTime (Timestamp (Value (KeyValue (kvs0 ! 0))));
            st3 = st2\<lparr>heap := SortFunc (sortCmp (EnsureSafeSplitKey env)) kvs0\<rparr>
        in if length (bh st3) = 0 then Some (Inl (Panic ''integer divide by zero''), st3)
           else
             let total = length (heap st3);
                 (chunks, kvs') = dispatchChunks env (length (bh st3)) (heap st3)
             in case runWorkers env mustProcess 0 chunks zeroAcc st3 of
                  None \<Rightarrow> None
                | Some (acc, st4) \<Rightarrow>
                    (case waitErr acc of
                       Some err \<Rightarrow> Some (Inl err, st4)
                     | None \<Rightarrow>
                         let (unapplied, st5) =
                               (if notProcessedSum acc > 0
                                then (let (remaining, arr') = filterRemaining (heap st4) kvs'
                                      in (Some remaining, st4\<lparr>heap := arr'\<rparr>))
                                else (None, st4));
                             (t1, st6) = now env st5;
                             flushTime = t1 - preFlushTime;
                             byteCount = flushByteSize acc;
                             (t2, st7) = now env st6
                         in Some (Inr unapplied,
                              st7\<lparr>observed := observed st7 @
                                [RecordFlushComplete flushTime total byteCount,
                                 AppliedRowUpdates_Inc total,
                                 AppliedLogicalBytes_Inc byteCount,
                                 CommitToCommitLatency_RecordValue (t2 - firstKeyTS),
                                 StreamBatchNanosHist_RecordValue flushTime,
                                 StreamBatchRowsHist_RecordValue total,
                                 StreamBatchBytesHist_RecordValue byteCount]\<rparr>)))"

subsection \<open>The frontier gate: \<^verbatim>\<open>checkpoint\<close> and \<^verbatim>\<open>maybeCheckpoint\<close>\<close>

text \<open>The loop \<^verbatim>\<open>for _, resolvedSpan := range resolvedSpans\<close> of \<^verbatim>\<open>checkpoint\<close>; it stops
  at the first error of \<^verbatim>\<open>Forward\<close>.\<close>

fun forwardAll ::
  "('h, 'd, 'f, 'p, 'row) env \<Rightarrow> ResolvedSpan list \<Rightarrow> 'f \<Rightarrow> error option \<times> 'f" where
  "forwardAll env [] f = (None, f)"
| "forwardAll env (resolvedSpan # rest) f =
     (case Forward env f (ResolvedSpan_Span resolvedSpan) (ResolvedSpan_Timestamp resolvedSpan) of
        (Inl err, f') \<Rightarrow> (Some (Wrap err ''unable to forward checkpoint frontier''), f')
      | (Inr b, f') \<Rightarrow> forwardAll env rest f')"

definition checkpoint ::
  "('h, 'd, 'f, 'p, 'row) env \<Rightarrow> ResolvedSpan goslice \<Rightarrow> ('h, 'd, 'f, 'p) lrw
     \<Rightarrow> error option \<times> ('h, 'd, 'f, 'p) lrw" where
  "checkpoint env resolvedSpans st =
     (if (case ElideCheckpointEvent env of
            Some elide \<Rightarrow> elide (FrontierOf env (frontier st))
          | None \<Rightarrow> False)
      then (None, st)
      else
        case resolvedSpans of
          None \<Rightarrow> (Some ExpectedResolvedSpans, st)
        | Some spans \<Rightarrow>
            (case forwardAll env spans (frontier st) of
               (Some err, f) \<Rightarrow> (Some err, st\<lparr>frontier := f\<rparr>)
             | (None, f) \<Rightarrow>
                 (case ctxErr env of
                    Some err \<Rightarrow> (Some err, st\<lparr>frontier := f\<rparr>)
                  | None \<Rightarrow>
                      (None, st\<lparr>frontier := f,
                                checkpointCh := checkpointCh st @ [spans],
                                observed := observed st @ [CheckpointEvents_Inc 1]\<rparr>))))"

definition maybeCheckpoint ::
  "('h, 'd, 'f, 'p, 'row) env \<Rightarrow> ResolvedSpan goslice \<Rightarrow> ('h, 'd, 'f, 'p) lrw
     \<Rightarrow> (error option \<times> ('h, 'd, 'f, 'p) lrw) option" where
  "maybeCheckpoint env resolvedSpans st =
     (if \<not> purgEmpty env (purgatory st) then
        purgDrain env (flushBuffer env) (checkpoint env)
          (st\<lparr>purgatory := purgCheckpoint env (purgatory st) resolvedSpans\<rparr>)
      else Some (checkpoint env resolvedSpans st))"

subsection \<open>The dispatcher: \<^verbatim>\<open>handleStreamBuffer\<close> and \<^verbatim>\<open>handleEvent\<close>\<close>

definition handleStreamBuffer ::
  "('h, 'd, 'f, 'p, 'row) env \<Rightarrow> StreamEvent_KV list \<Rightarrow> ('h, 'd, 'f, 'p) lrw
     \<Rightarrow> (error option \<times> ('h, 'd, 'f, 'p) lrw) option" where
  "handleStreamBuffer env kvs st =
     (case flushBuffer env kvs False st of
        None \<Rightarrow> None
      | Some (Inl err, st') \<Rightarrow> Some (Some err, st')
      | Some (Inr unapplied, st') \<Rightarrow>
          purgStore env (flushBuffer env) (checkpoint env) unapplied st')"

definition handleEvent ::
  "('h, 'd, 'f, 'p, 'row) env \<Rightarrow> Event \<Rightarrow> ('h, 'd, 'f, 'p) lrw
     \<Rightarrow> (error option \<times> ('h, 'd, 'f, 'p) lrw) option" where
  "handleEvent env event st =
     (case (case RunAfterReceivingEvent env of Some knob \<Rightarrow> knob () | None \<Rightarrow> None) of
        Some err \<Rightarrow> Some (Some err, st)
      | None \<Rightarrow>
          (case Type event of
             KVEvent \<Rightarrow> handleStreamBuffer env (GetKVs event) st
           | CheckpointEvent \<Rightarrow> maybeCheckpoint env (GetResolvedSpans event) st
           | SSTableEvent \<Rightarrow> Some (Some (UnexpectedEvent event), st)
           | DeleteRangeEvent \<Rightarrow> Some (Some (UnexpectedEvent event), st)
           | SplitEvent \<Rightarrow> Some (None, st)
           | OtherEvent n \<Rightarrow> Some (Some (UnknownEventType (Type event)), st)))"

subsection \<open>A concrete environment\<close>

text \<open>Collaborators for running the model on concrete buffers. The handler keeps the
  list of the events it has applied; it rejects a batch that holds an event with an
  empty value and applies every other batch. The dead-letter queue keeps the events
  written to it. The row prefix of a non-empty key is the key without its last byte.
  The purgatory is always empty and stores nothing.\<close>

definition demoHandleBatch ::
  "StreamEvent_KV list \<Rightarrow> StreamEvent_KV list
     \<Rightarrow> (error + batchStats) \<times> StreamEvent_KV list" where
  "demoHandleBatch h batch =
     (if \<exists>kv \<in> set batch. RawBytes (Value (KeyValue kv)) = []
      then (Inl (ExtError ''apply failed''), h)
      else (Inr \<lparr>notProcessed = 0, byteSize = int (length batch),
                 optimisticInsertConflicts = 0\<rparr>, h @ batch))"

definition demoSplitKey :: "Key \<Rightarrow> error + Key" where
  "demoSplitKey key = (if key = [] then Inl (ExtError ''empty key'') else Inr (butlast key))"

definition demoEnv ::
  "(StreamEvent_KV list, StreamEvent_KV list, unit, unit, unit) env" where
  "demoEnv =
     \<lparr>HandleBatch = demoHandleBatch,
      GetLastRow = (\<lambda>h. ()),
      dlqLog = (\<lambda>d event row err. (None, d @ [event])),
      EnsureSafeSplitKey = demoSplitKey,
      Forward = (\<lambda>f sp ts. (Inr True, f)),
      FrontierOf = (\<lambda>f. zeroTimestamp),
      Now = (\<lambda>n. 1000 + int n),
      flushBatchSize = 32,
      useImplicitTxns = True,
      RunAfterReceivingEvent = None,
      ElideCheckpointEvent = None,
      ctxErr = None,
      purgEmpty = (\<lambda>p. True),
      purgCheckpoint = (\<lambda>p spans. p),
      purgDrain = (\<lambda>flush ckpt st. Some (None, st)),
      purgStore = (\<lambda>flush ckpt unapplied st. Some (None, st))\<rparr>"

definition demoState ::
  "nat \<Rightarrow> (StreamEvent_KV list, StreamEvent_KV list, unit, unit) lrw" where
  "demoState n =
     \<lparr>bh = replicate n [], dlqClient = [], frontier = (), purgatory = (),
      checkpointCh = [], observed = [], clock = 0, heap = []\<rparr>"

text \<open>An event for the key \<open>key\<close> with value bytes \<open>v\<close>, committed at wall time \<open>t\<close>.\<close>

definition kv :: "Key \<Rightarrow> byte list \<Rightarrow> int \<Rightarrow> StreamEvent_KV" where
  "kv key v t =
     \<lparr>KeyValue = \<lparr>Key = key, Value = \<lparr>RawBytes = v, Timestamp = \<lparr>WallTime = t, Logical = 0\<rparr>\<rparr>\<rparr>,
      PrevValue = zeroValue\<rparr>"

subsection \<open>Predicates used in the statements\<close>

text \<open>\<open>sortLe esk a b\<close>: the comparison function of the sort does not put \<open>a\<close> after
  \<open>b\<close>.\<close>

definition sortLe :: "(Key \<Rightarrow> error + Key) \<Rightarrow> StreamEvent_KV \<Rightarrow> StreamEvent_KV \<Rightarrow> bool" where
  "sortLe esk a b = (sortCmp esk a b \<le> 0)"

text \<open>\<open>chained a chunks b\<close>: the slices are non-empty and lie one after the other, the
  first starting at index \<open>a\<close> and the last ending before index \<open>b\<close>.\<close>

fun chained :: "nat \<Rightarrow> slice list \<Rightarrow> nat \<Rightarrow> bool" where
  "chained a [] b = (a = b)"
| "chained a (c # cs) b = (off c = a \<and> 0 < len c \<and> chained (a + len c) cs b)"

text \<open>What the chunk loop guarantees for its result: at most one chunk per worker; the
  chunks and the rest tile the slice; nothing is left when the workers' targets cover the
  slice; a chunk that ends inside the slice ends where the row prefix changes; and the
  length of each chunk is its target \<open>min cs remaining\<close>, extended over the events with
  the row prefix of the last event of the target.\<close>

definition chunksOk ::
  "(StreamEvent_KV \<Rightarrow> Key) \<Rightarrow> nat \<Rightarrow> nat \<Rightarrow> StreamEvent_KV list \<Rightarrow> slice \<Rightarrow> slice list
     \<Rightarrow> slice \<Rightarrow> bool" where
  "chunksOk kf cs n arr kvs chunks rest \<longleftrightarrow>
     length chunks \<le> n \<and>
     off rest + len rest = off kvs + len kvs \<and>
     chained (off kvs) chunks (off rest) \<and>
     (len kvs \<le> n * cs \<longrightarrow> len rest = 0) \<and>
     (\<forall>c \<in> set chunks. off c + len c < off kvs + len kvs \<longrightarrow>
           kf (arr ! (off c + len c - 1)) \<noteq> kf (arr ! (off c + len c))) \<and>
     (\<forall>c \<in> set chunks.
           len c = extendChunk kf arr \<lparr>off = off c, len = off kvs + len kvs - off c\<rparr>
                     (min cs (off kvs + len kvs - off c)))"

section \<open>Properties\<close>

subsection \<open>The sort\<close>

lemma sortCmp_le_iff:
  "sortCmp esk a b \<le> 0 \<longleftrightarrow>
     k esk a < k esk b \<or>
     (k esk a = k esk b \<and>
       (WallTime (Timestamp (Value (KeyValue a))) < WallTime (Timestamp (Value (KeyValue b))) \<or>
        (WallTime (Timestamp (Value (KeyValue a))) = WallTime (Timestamp (Value (KeyValue b))) \<and>
         Logical (Timestamp (Value (KeyValue a))) \<le> Logical (Timestamp (Value (KeyValue b))))))"
  by (auto simp: sortCmp_def Key_Compare_def Timestamp_Compare_def Let_def)

lemma sortLe_total: "sortLe esk a b \<or> sortLe esk b a"
  unfolding sortLe_def sortCmp_le_iff by auto

lemma sortLe_trans: "sortLe esk a b \<Longrightarrow> sortLe esk b c \<Longrightarrow> sortLe esk a c"
  unfolding sortLe_def sortCmp_le_iff by auto

lemma sortLe_key: "sortLe esk a b \<Longrightarrow> k esk a \<le> k esk b"
  unfolding sortLe_def sortCmp_le_iff by auto

lemma mset_insertFunc: "mset (insertFunc cmp x xs) = add_mset x (mset xs)"
  by (induction xs) auto

lemma set_insertFunc: "set (insertFunc cmp x xs) = insert x (set xs)"
  by (induction xs) auto

lemma mset_SortFunc: "mset (SortFunc cmp xs) = mset xs"
  by (induction xs) (auto simp: mset_insertFunc)

lemma length_SortFunc: "length (SortFunc cmp xs) = length xs"
  by (metis mset_SortFunc size_mset)

lemma set_SortFunc: "set (SortFunc cmp xs) = set xs"
  by (metis mset_SortFunc set_mset_mset)

lemma sorted_insertFunc:
  "sorted_wrt (sortLe esk) xs \<Longrightarrow> sorted_wrt (sortLe esk) (insertFunc (sortCmp esk) x xs)"
proof (induction xs)
  case Nil
  then show ?case by simp
next
  case (Cons y ys)
  show ?case
  proof (cases "sortCmp esk x y \<le> 0")
    case True
    then have xy: "sortLe esk x y" by (simp add: sortLe_def)
    have "\<forall>z \<in> set ys. sortLe esk x z"
      using Cons.prems xy sortLe_trans by auto
    with True xy Cons.prems show ?thesis by simp
  next
    case False
    then have yx: "sortLe esk y x" using sortLe_total [of esk x y] by (simp add: sortLe_def)
    from Cons have "sorted_wrt (sortLe esk) (insertFunc (sortCmp esk) x ys)" by simp
    with False yx Cons.prems show ?thesis by (auto simp: set_insertFunc)
  qed
qed

lemma sorted_SortFunc: "sorted_wrt (sortLe esk) (SortFunc (sortCmp esk) xs)"
  by (induction xs) (auto intro: sorted_insertFunc)

lemma sorted_key_SortFunc:
  "sorted_wrt (\<lambda>a b. k esk a \<le> k esk b) (SortFunc (sortCmp esk) xs)"
  using sorted_SortFunc [of esk xs] sortLe_key sorted_wrt_mono_rel by (metis (mono_tags, lifting))


lemma extendChunk_ge: "e \<le> extendChunk kf arr kvs e"
proof (induction kf arr kvs e rule: extendChunk.induct)
  case (1 kf arr kvs chunkEnd)
  then show ?case by (subst extendChunk.simps) auto
qed

lemma extendChunk_le: "e \<le> len kvs \<Longrightarrow> extendChunk kf arr kvs e \<le> len kvs"
proof (induction kf arr kvs e rule: extendChunk.induct)
  case (1 kf arr kvs chunkEnd)
  then show ?case by (subst extendChunk.simps) auto
qed

lemma extendChunk_boundary:
  "extendChunk kf arr kvs e < len kvs \<Longrightarrow>
     kf (arr ! (off kvs + extendChunk kf arr kvs e - 1)) \<noteq> kf (arr ! (off kvs + extendChunk kf arr kvs e))"
proof (induction kf arr kvs e rule: extendChunk.induct)
  case (1 kf arr kvs chunkEnd)
  show ?case
  proof (cases "chunkEnd < len kvs \<and> kf (arr ! (off kvs + chunkEnd - 1)) = kf (arr ! (off kvs + chunkEnd))")
    case True
    then have eq: "extendChunk kf arr kvs chunkEnd = extendChunk kf arr kvs (chunkEnd + 1)"
      by (subst extendChunk.simps) simp
    from "1.IH" [OF True] "1.prems" show ?thesis unfolding eq by simp
  next
    case False
    then have eq: "extendChunk kf arr kvs chunkEnd = chunkEnd"
      by (subst extendChunk.simps) auto
    from False "1.prems" show ?thesis unfolding eq by auto
  qed
qed

lemma extendChunk_same:
  "0 < e \<Longrightarrow> e \<le> i \<Longrightarrow> i < extendChunk kf arr kvs e \<Longrightarrow>
     kf (arr ! (off kvs + i)) = kf (arr ! (off kvs + e - 1))"
proof (induction kf arr kvs e rule: extendChunk.induct)
  case (1 kf arr kvs chunkEnd)
  show ?case
  proof (cases "chunkEnd < len kvs \<and> kf (arr ! (off kvs + chunkEnd - 1)) = kf (arr ! (off kvs + chunkEnd))")
    case True
    then have eq: "extendChunk kf arr kvs chunkEnd = extendChunk kf arr kvs (chunkEnd + 1)"
      by (subst extendChunk.simps) simp
    show ?thesis
    proof (cases "i = chunkEnd")
      case True2: True
      with True show ?thesis by simp
    next
      case False
      with "1.prems" have "chunkEnd + 1 \<le> i" by simp
      from "1.IH" [OF True _ this] "1.prems" eq True show ?thesis by simp
    qed
  next
    case False
    then have eq: "extendChunk kf arr kvs chunkEnd = chunkEnd"
      by (subst extendChunk.simps) auto
    from "1.prems" show ?thesis unfolding eq by simp
  qed
qed

lemma extendChunk_cong:
  "off kvs = off kvs' \<Longrightarrow> len kvs = len kvs' \<Longrightarrow> extendChunk kf arr kvs e = extendChunk kf arr kvs' e"
  by (cases kvs; cases kvs') simp

lemma chunkLoop_Suc:
  "0 < len kvs \<Longrightarrow>
     chunkLoop kf cs (Suc n) arr kvs =
       (\<lparr>off = off kvs, len = extendChunk kf arr kvs (min cs (len kvs))\<rparr> #
          fst (chunkLoop kf cs n arr
                 \<lparr>off = off kvs + extendChunk kf arr kvs (min cs (len kvs)),
                  len = len kvs - extendChunk kf arr kvs (min cs (len kvs))\<rparr>),
        snd (chunkLoop kf cs n arr
                 \<lparr>off = off kvs + extendChunk kf arr kvs (min cs (len kvs)),
                  len = len kvs - extendChunk kf arr kvs (min cs (len kvs))\<rparr>))"
  apply (subst chunkLoop.simps)
  apply (simp only: Let_def)
  apply (simp add: case_prod_beta)
  done

lemma chunkLoop_empty: "len kvs = 0 \<Longrightarrow> chunkLoop kf cs n arr kvs = ([], kvs)"
  by (cases n) (simp_all add: chunkLoop.simps)

lemma chunkLoop_props:
  "0 < cs \<Longrightarrow> chunksOk kf cs n arr kvs (fst (chunkLoop kf cs n arr kvs)) (snd (chunkLoop kf cs n arr kvs))"
proof (induction n arbitrary: kvs)
  case 0
  then show ?case by (simp add: chunksOk_def chunkLoop.simps)
next
  case (Suc n)
  show ?case
  proof (cases "len kvs = 0")
    case True
    then show ?thesis by (simp add: chunkLoop_empty chunksOk_def)
  next
    case False
    define e where "e = extendChunk kf arr kvs (min cs (len kvs))"
    define kvs' where "kvs' = \<lparr>off = off kvs + e, len = len kvs - e\<rparr>"
    define chunks' where "chunks' = fst (chunkLoop kf cs n arr kvs')"
    define rest' where "rest' = snd (chunkLoop kf cs n arr kvs')"
    have e_le: "e \<le> len kvs" unfolding e_def by (rule extendChunk_le) simp
    have e_ge: "min cs (len kvs) \<le> e" unfolding e_def by (rule extendChunk_ge)
    have e_pos: "0 < e" using e_ge False Suc.prems by simp
    have end': "off kvs' + len kvs' = off kvs + len kvs" using e_le by (simp add: kvs'_def)
    have off': "off kvs' = off kvs + e" by (simp add: kvs'_def)
    have eq: "chunkLoop kf cs (Suc n) arr kvs = (\<lparr>off = off kvs, len = e\<rparr> # chunks', rest')"
      using False by (simp add: chunkLoop_Suc e_def kvs'_def chunks'_def rest'_def)
    have IH: "chunksOk kf cs n arr kvs' chunks' rest'"
      unfolding chunks'_def rest'_def by (rule Suc.IH [OF Suc.prems])
    have b: "e < len kvs \<longrightarrow> kf (arr ! (off kvs + e - 1)) \<noteq> kf (arr ! (off kvs + e))"
      unfolding e_def using extendChunk_boundary by blast
    have l: "e = extendChunk kf arr \<lparr>off = off kvs, len = len kvs\<rparr> (min cs (len kvs))"
      unfolding e_def by (rule extendChunk_cong) simp_all
    have small: "len kvs \<le> Suc n * cs \<longrightarrow> len kvs' \<le> n * cs"
      using e_ge by (auto simp: kvs'_def min_def split: if_splits)
    have 1: "length (\<lparr>off = off kvs, len = e\<rparr> # chunks') \<le> Suc n"
      using IH by (simp add: chunksOk_def)
    have 2: "off rest' + len rest' = off kvs + len kvs"
      using IH end' by (simp add: chunksOk_def)
    have 3: "chained (off kvs) (\<lparr>off = off kvs, len = e\<rparr> # chunks') (off rest')"
      using IH e_pos off' by (simp add: chunksOk_def)
    have 4: "len kvs \<le> Suc n * cs \<longrightarrow> len rest' = 0"
      using IH small by (simp add: chunksOk_def)
    have 5: "\<forall>c \<in> set (\<lparr>off = off kvs, len = e\<rparr> # chunks'). off c + len c < off kvs + len kvs \<longrightarrow>
           kf (arr ! (off c + len c - 1)) \<noteq> kf (arr ! (off c + len c))"
      using IH b end' by (auto simp: chunksOk_def)
    have 6: "\<forall>c \<in> set (\<lparr>off = off kvs, len = e\<rparr> # chunks').
           len c = extendChunk kf arr \<lparr>off = off c, len = off kvs + len kvs - off c\<rparr>
                     (min cs (off kvs + len kvs - off c))"
      using IH l end' by (auto simp: chunksOk_def)
    show ?thesis unfolding eq fst_conv snd_conv chunksOk_def
      using 1 2 3 4 5 6 by blast
  qed
qed


subsection \<open>The empty buffer\<close>

text \<open>C10. For the empty buffer and either value of \<open>mustProcess\<close>, \<^verbatim>\<open>flushBuffer\<close> returns
  \<^verbatim>\<open>(nil, nil)\<close> at once and leaves the whole state as it was: the buffer is not sorted,
  no chunk is handed to a worker, nothing is written to the dead-letter queue, no call
  is made on metrics or debug status and the clock is not read.\<close>

theorem flushBuffer_empty:
  "flushBuffer env [] mustProcess st = Some (Inr None, st)"
  by (simp add: flushBuffer_def)

end
